theory Spec2Isabelle
  imports Complex_Main
begin

section \<open>Samples, the sliding window buffer and Python helpers\<close>

text \<open>
  Two applications of the repository share the streaming core:
  \<^verbatim>\<open>fullscreen_grf.py\<close> (definitions prefixed \<open>fs_\<close>) and \<^verbatim>\<open>punchingmachine.py\<close>
  (prefixed \<open>pm_\<close>). A sample is the pair \<^verbatim>\<open>(timestamp, force)\<close> that
  \<^verbatim>\<open>data_received\<close> delivers. Python floats are idealised as reals: NaN and
  infinities are outside the model. The \<^verbatim>\<open>QTimer.singleShot\<close> callbacks that put a
  status text back after three seconds are not modelled; a status label holds the text
  \<^verbatim>\<open>detect_mountain\<close> set last.
\<close>

type_synonym sample = "real \<times> real"

text \<open>\<^verbatim>\<open>deque(maxlen=n).append(x)\<close>: a full deque drops its leftmost entry first.\<close>

definition deque_append :: "nat \<Rightarrow> 'a list \<Rightarrow> 'a \<Rightarrow> 'a list" where
  "deque_append maxlen d x = (if length d < maxlen then d @ [x] else tl d @ [x])"

text \<open>
  The loop of \<^verbatim>\<open>update_plot\<close>:
  \<^verbatim>\<open>while self.data_buffer and latest_time - self.data_buffer[0][0] > 5.0: popleft()\<close>
\<close>

fun evict_old :: "real \<Rightarrow> sample list \<Rightarrow> sample list" where
  "evict_old latest_time [] = []"
| "evict_old latest_time (e # es) =
     (if latest_time - fst e > 5 then evict_old latest_time es else e # es)"

text \<open>
  \<^verbatim>\<open>update_plot\<close>, its effect on \<^verbatim>\<open>data_buffer\<close> (the rest is drawing): nothing when
  fewer than two entries are held, otherwise \<^verbatim>\<open>latest_time = data_buffer[-1][0]\<close> and
  the eviction loop.
\<close>

definition update_plot :: "sample list \<Rightarrow> sample list" where
  "update_plot data_buffer =
     (if length data_buffer < 2 then data_buffer
      else evict_old (fst (last data_buffer)) data_buffer)"

text \<open>
  The head of \<^verbatim>\<open>detect_mountain\<close>:
  \<^verbatim>\<open>prev_force = 0; if len(self.data_buffer) >= 2: prev_force = self.data_buffer[-2][1]\<close>
\<close>

definition prev_force_of :: "sample list \<Rightarrow> real" where
  "prev_force_of data_buffer =
     (if length data_buffer \<ge> 2 then snd (data_buffer ! (length data_buffer - 2)) else 0)"

text \<open>Python's \<^verbatim>\<open>max(list)\<close>; \<open>None\<close> is the ValueError on an empty list.\<close>

fun py_max :: "real list \<Rightarrow> real option" where
  "py_max [] = None"
| "py_max (x # xs) = Some (foldl (\<lambda>m y. if y > m then y else m) x xs)"

text \<open>Python's \<^verbatim>\<open>int(x)\<close> on a float: truncation towards zero.\<close>

definition py_int :: "real \<Rightarrow> int" where
  "py_int x = (if x \<ge> 0 then \<lfloor>x\<rfloor> else \<lceil>x\<rceil>)"

section \<open>fullscreen\_grf.py\<close>

subsection \<open>MaxValueWidget\<close>

record MaxValueWidget =
  max_force :: real
  max_timestamp :: real
  max_mountain_data :: "sample list"

definition fs_max_init :: MaxValueWidget where
  "fs_max_init = \<lparr>max_force = 0, max_timestamp = 0, max_mountain_data = []\<rparr>"

definition update_max_value :: "MaxValueWidget \<Rightarrow> real \<Rightarrow> real \<Rightarrow> sample list \<Rightarrow> MaxValueWidget" where
  "update_max_value w timestamp force mountain_data =
     (let w1 = (if timestamp - max_timestamp w > 10
                then w\<lparr>max_force := 0, max_mountain_data := []\<rparr> else w)
      in if force > max_force w1
         then (let w2 = w1\<lparr>max_force := force, max_timestamp := timestamp\<rparr>
               in if mountain_data \<noteq> [] then w2\<lparr>max_mountain_data := mountain_data\<rparr> else w2)
         else w1)"

text \<open>The text of \<^verbatim>\<open>timer_label\<close>: \<^verbatim>\<open>max(0, 10.0 - (timestamp - self.max_timestamp))\<close>.\<close>

definition remaining_time :: "MaxValueWidget \<Rightarrow> real \<Rightarrow> real" where
  "remaining_time w timestamp = max 0 (10 - (timestamp - max_timestamp w))"

subsection \<open>PastWaveformsWidget\<close>

text \<open>
  \<^verbatim>\<open>add_new_waveform\<close>: \<^verbatim>\<open>insert(0, ...)\<close> then \<^verbatim>\<open>[:3]\<close>, only for a non-empty
  \<^verbatim>\<open>mountain_data\<close>. \<^verbatim>\<open>update_all_waveforms\<close> draws \<^verbatim>\<open>past_mountains[i]\<close> on line
  \<open>i\<close>, in list order.
\<close>

definition add_new_waveform :: "sample list list \<Rightarrow> sample list \<Rightarrow> sample list list" where
  "add_new_waveform past_mountains mountain_data =
     (if mountain_data \<noteq> [] then take 3 (mountain_data # past_mountains) else past_mountains)"

subsection \<open>RealtimeDisplayWidget\<close>

datatype fs_status =
    Receiving          \<comment> \<open>the initial text\<close>
  | Detecting          \<comment> \<open>a mountain is being recorded\<close>
  | Detected           \<comment> \<open>a mountain was accepted\<close>
  | Ignoring real      \<comment> \<open>a mountain was found but ignored; the remaining time shown\<close>

datatype fs_signal =
    MountainDetected "sample list"
  | MaxValueUpdated real real "sample list"

record fs_realtime =
  fs_data_buffer :: "sample list"
  fs_current_mountain :: "sample list"
  fs_in_mountain :: bool
  last_mountain_timestamp :: real
  fs_status_label :: fs_status

definition fs_init_data :: fs_realtime where
  "fs_init_data = \<lparr>fs_data_buffer = [], fs_current_mountain = [], fs_in_mountain = False,
                    last_mountain_timestamp = 0, fs_status_label = Receiving\<rparr>"

text \<open>
  \<^verbatim>\<open>detect_mountain\<close> returns the new widget state and the signals it emitted, in
  emission order; \<open>None\<close> is an exception (\<^verbatim>\<open>max\<close> of an empty list).
\<close>

definition fs_detect_mountain ::
  "fs_realtime \<Rightarrow> real \<Rightarrow> real \<Rightarrow> (fs_realtime \<times> fs_signal list) option" where
  "fs_detect_mountain w timestamp force =
     (let prev_force = prev_force_of (fs_data_buffer w) in
      if \<not> fs_in_mountain w \<and> prev_force \<le> 0 \<and> force > 0 then
        Some (w\<lparr>fs_in_mountain := True, fs_current_mountain := [(timestamp, force)],
                fs_status_label := Detecting\<rparr>, [])
      else if fs_in_mountain w \<and> force > 0 then
        Some (w\<lparr>fs_current_mountain := fs_current_mountain w @ [(timestamp, force)]\<rparr>, [])
      else if fs_in_mountain w \<and> force \<le> 0 then
        (let cm = fs_current_mountain w @ [(timestamp, force)];
             w1 = w\<lparr>fs_current_mountain := cm, fs_in_mountain := False\<rparr>
         in if timestamp - last_mountain_timestamp w1 \<ge> 1 then
              (case py_max (map snd cm) of
                 None \<Rightarrow> None
               | Some max_force_in_mountain \<Rightarrow>
                   Some (w1\<lparr>fs_status_label := Detected, last_mountain_timestamp := timestamp\<rparr>,
                         [MountainDetected cm,
                          MaxValueUpdated timestamp max_force_in_mountain cm]))
            else
              Some (w1\<lparr>fs_status_label :=
                          Ignoring (1 - (timestamp - last_mountain_timestamp w1))\<rparr>, []))
      else Some (w, []))"

subsection \<open>MainWindow: the widgets and the signal connections\<close>

record fs_main =
  max_value_widget :: MaxValueWidget
  past_waveforms_widget :: "sample list list"
  fs_realtime_widget :: fs_realtime

definition fs_main_init :: fs_main where
  "fs_main_init = \<lparr>max_value_widget = fs_max_init, past_waveforms_widget = [],
                    fs_realtime_widget = fs_init_data\<rparr>"

text \<open>
  The slots connected in \<^verbatim>\<open>MainWindow.init_ui\<close>: \<^verbatim>\<open>on_mountain_detected\<close> and
  \<^verbatim>\<open>on_max_value_updated\<close>. Emitter and slots live in the GUI thread, so a slot runs
  when its signal is emitted.
\<close>

fun fs_dispatch :: "fs_main \<Rightarrow> fs_signal \<Rightarrow> fs_main" where
  "fs_dispatch m (MountainDetected mountain_data) =
     m\<lparr>past_waveforms_widget := add_new_waveform (past_waveforms_widget m) mountain_data\<rparr>"
| "fs_dispatch m (MaxValueUpdated timestamp force mountain_data) =
     m\<lparr>max_value_widget := update_max_value (max_value_widget m) timestamp force mountain_data\<rparr>"

text \<open>
  Everything \<^verbatim>\<open>update_data\<close> emits, in order: the signals of \<^verbatim>\<open>detect_mountain\<close>,
  then \<^verbatim>\<open>max_value_updated.emit(timestamp, force, [])\<close>.
\<close>

definition fs_update_data_signals ::
  "fs_realtime \<Rightarrow> real \<Rightarrow> real \<Rightarrow> fs_signal list option" where
  "fs_update_data_signals w timestamp force =
     (case fs_detect_mountain
             (w\<lparr>fs_data_buffer := deque_append 500 (fs_data_buffer w) (timestamp, force)\<rparr>)
             timestamp force of
        None \<Rightarrow> None
      | Some (w', sigs) \<Rightarrow> Some (sigs @ [MaxValueUpdated timestamp force []]))"

definition fs_update_data :: "fs_main \<Rightarrow> real \<Rightarrow> real \<Rightarrow> fs_main option" where
  "fs_update_data m timestamp force =
     (let w = fs_realtime_widget m;
          w0 = w\<lparr>fs_data_buffer := deque_append 500 (fs_data_buffer w) (timestamp, force)\<rparr>
      in case fs_detect_mountain w0 timestamp force of
           None \<Rightarrow> None
         | Some (w1, sigs) \<Rightarrow>
             (let m1 = foldl fs_dispatch m (sigs @ [MaxValueUpdated timestamp force []])
              in Some (m1\<lparr>fs_realtime_widget :=
                            w1\<lparr>fs_data_buffer := update_plot (fs_data_buffer w1)\<rparr>\<rparr>)))"

text \<open>A stream of samples, delivered in order; an exception ends the run with \<open>None\<close>.\<close>

fun fs_run :: "fs_main \<Rightarrow> sample list \<Rightarrow> fs_main option" where
  "fs_run m [] = Some m"
| "fs_run m ((timestamp, force) # rest) =
     (case fs_update_data m timestamp force of None \<Rightarrow> None | Some m' \<Rightarrow> fs_run m' rest)"

section \<open>punchingmachine.py\<close>

subsection \<open>PunchingScoreWidget\<close>

datatype comment =
    Harder      \<comment> \<open>score below 500, gray\<close>
  | SoSo        \<comment> \<open>below 1000, blue\<close>
  | Nice        \<comment> \<open>below 2000, orange\<close>
  | Strong      \<comment> \<open>below 3000, red\<close>
  | Strongest   \<comment> \<open>3000 and more, gold\<close>

text \<open>
  \<^verbatim>\<open>high_score_label\<close> shows \<^verbatim>\<open>high_scores[0]\<close> and, when more than one score is held,
  the whole top five.
\<close>

record PunchingScoreWidget =
  score_label :: int
  comment_label :: "comment option"
  high_scores :: "int list"
  high_score_label :: "int \<times> int list option"

definition pm_score_init :: PunchingScoreWidget where
  "pm_score_init = \<lparr>score_label = 0, comment_label = None, high_scores = [],
                     high_score_label = (0, None)\<rparr>"

text \<open>
  \<^verbatim>\<open>update_high_score\<close>: append, \<^verbatim>\<open>sort(reverse=True)\<close>, \<^verbatim>\<open>[:5]\<close>;
  \<open>None\<close> is the IndexError of \<^verbatim>\<open>high_scores[0]\<close>.
\<close>

definition update_high_score :: "PunchingScoreWidget \<Rightarrow> int \<Rightarrow> PunchingScoreWidget option" where
  "update_high_score w score =
     (let hs = take 5 (rev (sort (high_scores w @ [score])))
      in case hs of
           [] \<Rightarrow> None
         | best # _ \<Rightarrow>
             Some (w\<lparr>high_scores := hs,
                     high_score_label := (best, if length hs > 1 then Some hs else None)\<rparr>))"

definition update_score :: "PunchingScoreWidget \<Rightarrow> real \<Rightarrow> PunchingScoreWidget option" where
  "update_score w mx =
     (let score = py_int mx;
          c = (if score < 500 then Harder
               else if score < 1000 then SoSo
               else if score < 2000 then Nice
               else if score < 3000 then Strong
               else Strongest)
      in update_high_score (w\<lparr>score_label := score, comment_label := Some c\<rparr>) score)"

subsection \<open>MountainDisplayWindow\<close>

text \<open>
  \<^verbatim>\<open>show_mountain\<close>: \<^verbatim>\<open>append\<close>, then \<^verbatim>\<open>pop(0)\<close> when more than three are held.
  \<^verbatim>\<open>update_all_plots\<close> draws the newest on \<^verbatim>\<open>current_line\<close> and
  \<^verbatim>\<open>past_mountains[:-1][i]\<close> on past line \<open>i\<close>. The window is modelled by its list
  \<^verbatim>\<open>past_mountains\<close>; its status text and the timer that closes it are left out.
\<close>

definition show_mountain :: "sample list list \<Rightarrow> sample list \<Rightarrow> sample list list" where
  "show_mountain past_mountains mountain_data =
     (let pm = past_mountains @ [mountain_data]
      in if length pm > 3 then tl pm else pm)"

subsection \<open>RealtimeDisplayWidget\<close>

datatype pm_status =
    Ready                \<comment> \<open>the initial text\<close>
  | Punching             \<comment> \<open>a punch is being recorded\<close>
  | Completed nat int    \<comment> \<open>punch number and \<^verbatim>\<open>int(max_force)\<close>\<close>

record pm_realtime =
  pm_data_buffer :: "sample list"
  mountain_count :: nat
  pm_current_mountain :: "sample list"
  pm_in_mountain :: bool
  last_mountain_time :: real
  pm_status_label :: pm_status
  score_widget :: PunchingScoreWidget

definition pm_init_data :: pm_realtime where
  "pm_init_data = \<lparr>pm_data_buffer = [], mountain_count = 0, pm_current_mountain = [],
                    pm_in_mountain = False, last_mountain_time = 0, pm_status_label = Ready,
                    score_widget = pm_score_init\<rparr>"

text \<open>
  \<^verbatim>\<open>detect_mountain\<close> returns the new widget state and the lists it emitted with
  \<^verbatim>\<open>mountain_detected\<close>; \<open>None\<close> is an exception.
\<close>

definition pm_detect_mountain ::
  "pm_realtime \<Rightarrow> real \<Rightarrow> real \<Rightarrow> (pm_realtime \<times> sample list list) option" where
  "pm_detect_mountain w timestamp force =
     (let prev_force = prev_force_of (pm_data_buffer w) in
      if \<not> pm_in_mountain w \<and> prev_force \<le> 100 \<and> force > 100 then
        Some (w\<lparr>pm_in_mountain := True, pm_current_mountain := [(timestamp, force)],
                pm_status_label := Punching\<rparr>, [])
      else if pm_in_mountain w \<and> force > 50 then
        Some (w\<lparr>pm_current_mountain := pm_current_mountain w @ [(timestamp, force)]\<rparr>, [])
      else if pm_in_mountain w \<and> force \<le> 50 then
        (let cm = pm_current_mountain w @ [(timestamp, force)];
             w1 = w\<lparr>pm_current_mountain := cm, pm_in_mountain := False\<rparr>
         in if cm \<noteq> [] then
              (case py_max (map snd cm) of
                 None \<Rightarrow> None
               | Some mx \<Rightarrow>
                   (case update_score (score_widget w1) mx of
                      None \<Rightarrow> None
                    | Some sw \<Rightarrow>
                        Some (w1\<lparr>score_widget := sw,
                                 mountain_count := mountain_count w1 + 1,
                                 pm_status_label :=
                                   Completed (mountain_count w1 + 1) (py_int mx)\<rparr>,
                              [cm])))
            else Some (w1, []))
      else Some (w, []))"

subsection \<open>MainWindow\<close>

record pm_main =
  pm_realtime_widget :: pm_realtime
  mountain_window :: "sample list list"

definition pm_main_init :: pm_main where
  "pm_main_init = \<lparr>pm_realtime_widget = pm_init_data, mountain_window = []\<rparr>"

definition pm_update_data :: "pm_main \<Rightarrow> real \<Rightarrow> real \<Rightarrow> pm_main option" where
  "pm_update_data m timestamp force =
     (let w = pm_realtime_widget m;
          w0 = w\<lparr>pm_data_buffer := deque_append 500 (pm_data_buffer w) (timestamp, force)\<rparr>
      in case pm_detect_mountain w0 timestamp force of
           None \<Rightarrow> None
         | Some (w1, emitted) \<Rightarrow>
             Some (m\<lparr>mountain_window := foldl show_mountain (mountain_window m) emitted,
                     pm_realtime_widget :=
                       w1\<lparr>pm_data_buffer := update_plot (pm_data_buffer w1)\<rparr>\<rparr>))"

fun pm_run :: "pm_main \<Rightarrow> sample list \<Rightarrow> pm_main option" where
  "pm_run m [] = Some m"
| "pm_run m ((timestamp, force) # rest) =
     (case pm_update_data m timestamp force of None \<Rightarrow> None | Some m' \<Rightarrow> pm_run m' rest)"

subsection \<open>DataReceiver\<close>



section \<open>Derived notions\<close>

text \<open>
  Start and end timestamp of an emitted event: the timestamps of its first and last
  sample. An empty list has none.
\<close>

definition event_span :: "sample list \<Rightarrow> (real \<times> real) option" where
  "event_span ev = (case ev of [] \<Rightarrow> None | s # _ \<Rightarrow> Some (fst s, fst (last ev)))"

text \<open>The peak of an emitted event: the maximum of its forces.\<close>

definition event_peak :: "sample list \<Rightarrow> real option" where
  "event_peak ev = py_max (map snd ev)"

text \<open>
  What one \<^verbatim>\<open>update_data\<close> call does to \<^verbatim>\<open>data_buffer\<close>, in both applications: the
  append at its head and the eviction of \<^verbatim>\<open>update_plot\<close> at its end;
  \<^verbatim>\<open>detect_mountain\<close> in between only reads the buffer.
\<close>

definition buffer_step :: "sample list \<Rightarrow> sample \<Rightarrow> sample list" where
  "buffer_step data_buffer s = update_plot (deque_append 500 data_buffer s)"

text \<open>
  The peaks of a sequence of punches, handed to \<^verbatim>\<open>update_score\<close> one after the other;
  \<open>None\<close> is an exception.
\<close>

fun update_scores :: "PunchingScoreWidget \<Rightarrow> real list \<Rightarrow> PunchingScoreWidget option" where
  "update_scores w [] = Some w"
| "update_scores w (mx # rest) =
     (case update_score w mx of None \<Rightarrow> None | Some w' \<Rightarrow> update_scores w' rest)"

text \<open>
  What every reachable state of the punching widget satisfies: a punch being recorded
  holds a sample above 100, the scores are in non-increasing order, and the high score
  displayed is 0 before the first score and the first entry afterwards.
\<close>

definition pm_inv :: "pm_realtime \<Rightarrow> bool" where
  "pm_inv w =
     ((\<not> pm_in_mountain w \<or> list_ex (\<lambda>s. snd s > 100) (pm_current_mountain w))
      \<and> sorted (rev (high_scores (score_widget w)))
      \<and> fst (high_score_label (score_widget w))
          = (case high_scores (score_widget w) of [] \<Rightarrow> 0 | best # _ \<Rightarrow> best))"



section \<open>Streams and states used as examples\<close>



text \<open>The detection scenario of the specification, for thresholds 100 and 50.\<close>

definition detection_scenario :: "sample list" where
  "detection_scenario = [(0, 0), (1/10, 50), (1/5, 150), (3/10, 80), (2/5, 0)]"


text \<open>
  Two pulses whose final samples are 0.5 s apart: the first is accepted at 1.1, the
  second, with the higher peak 30, is ignored at 1.6.
\<close>

definition ignored_pulse_stream :: "sample list" where
  "ignored_pulse_stream = [(1, 10), (11/10, 0), (3/2, 30), (8/5, 0)]"

text \<open>
  Four pulses two seconds apart, each a sample above the threshold and a sample at 0:
  with peaks 10, 20, 30, 40 for \<^verbatim>\<open>fullscreen_grf.py\<close>, and with peaks 110, 120, 130,
  140, above the start threshold 100, for \<^verbatim>\<open>punchingmachine.py\<close>.
\<close>

definition four_pulses_10_40 :: "sample list" where
  "four_pulses_10_40 =
     [(1, 10), (11/10, 0), (3, 20), (31/10, 0), (5, 30), (51/10, 0), (7, 40), (71/10, 0)]"

definition four_pulses_110_140 :: "sample list" where
  "four_pulses_110_140 =
     [(1, 110), (11/10, 0), (3, 120), (31/10, 0), (5, 130), (51/10, 0), (7, 140), (71/10, 0)]"

text \<open>
  Two pulses whose final samples are 0.5 s apart, for \<^verbatim>\<open>punchingmachine.py\<close>, and the
  two main windows in the middle of the second pulse of such a stream.
\<close>

definition two_punches :: "sample list" where
  "two_punches = [(0, 0), (1, 150), (11/10, 0), (3/2, 150), (8/5, 0)]"

definition fs_second_pulse :: fs_main where
  "fs_second_pulse =
     \<lparr>max_value_widget = \<lparr>max_force = 30, max_timestamp = 3/2, max_mountain_data = []\<rparr>,
      past_waveforms_widget = [[(1, 10), (11/10, 0)]],
      fs_realtime_widget =
        \<lparr>fs_data_buffer = [(1, 10), (11/10, 0), (3/2, 30)], fs_current_mountain = [(3/2, 30)],
         fs_in_mountain = True, last_mountain_timestamp = 11/10, fs_status_label = Detecting\<rparr>\<rparr>"

definition pm_second_punch :: pm_main where
  "pm_second_punch =
     \<lparr>pm_realtime_widget =
        \<lparr>pm_data_buffer = [(0, 0), (1, 150), (11/10, 0), (3/2, 150)], mountain_count = 1,
         pm_current_mountain = [(3/2, 150)], pm_in_mountain = True, last_mountain_time = 0,
         pm_status_label = Punching,
         score_widget = \<lparr>score_label = 150, comment_label = Some Harder, high_scores = [150],
                         high_score_label = (150, None)\<rparr>\<rparr>,
      mountain_window = [[(1, 150), (11/10, 0)]]\<rparr>"


section \<open>Auxiliary facts\<close>

subsection \<open>Python helpers and the branches of the two detectors\<close>

lemma foldl_max_eq: "foldl (\<lambda>m y. if y > m then y else m) x xs = Max (set (x # xs))"
proof (induction xs arbitrary: x)
  case Nil
  show ?case by simp
next
  case (Cons a xs)
  have "foldl (\<lambda>m y. if y > m then y else m) x (a # xs) = Max (set ((if a > x then a else x) # xs))"
    using Cons.IH by simp
  also have "\<dots> = Max (set (x # a # xs))"
    by (cases "xs = []") (auto simp: max_def)
  finally show ?case .
qed

lemma py_max_Some: "xs \<noteq> [] \<Longrightarrow> py_max xs = Some (Max (set xs))"
  by (cases xs) (simp_all only: py_max.simps foldl_max_eq, simp)

lemma py_max_snoc: "py_max (map snd cm @ [f]) = Some (Max (insert f (snd ` set cm)))"
  using py_max_Some [of "map snd cm @ [f]"] by simp

lemma update_high_score_Some:
  "update_high_score w score =
     Some (w\<lparr>high_scores := take 5 (rev (sort (high_scores w @ [score]))),
             high_score_label :=
               (hd (take 5 (rev (sort (high_scores w @ [score])))),
                if length (take 5 (rev (sort (high_scores w @ [score])))) > 1
                then Some (take 5 (rev (sort (high_scores w @ [score])))) else None)\<rparr>)"
proof -
  have "length (take 5 (rev (sort (high_scores w @ [score])))) \<noteq> 0"
    by simp
  then obtain b bs where "take 5 (rev (sort (high_scores w @ [score]))) = b # bs"
    by (cases "take 5 (rev (sort (high_scores w @ [score])))") simp_all
  then show ?thesis
    by (simp add: update_high_score_def Let_def)
qed

lemma fs_detect_start:
  "\<not> fs_in_mountain w \<Longrightarrow> prev_force_of (fs_data_buffer w) \<le> 0 \<Longrightarrow> force > 0 \<Longrightarrow>
   fs_detect_mountain w timestamp force =
     Some (w\<lparr>fs_in_mountain := True, fs_current_mountain := [(timestamp, force)],
             fs_status_label := Detecting\<rparr>, [])"
  by (simp add: fs_detect_mountain_def)

lemma fs_detect_idle:
  "\<not> fs_in_mountain w \<Longrightarrow> \<not> (prev_force_of (fs_data_buffer w) \<le> 0 \<and> force > 0) \<Longrightarrow>
   fs_detect_mountain w timestamp force = Some (w, [])"
  by (auto simp add: fs_detect_mountain_def)

lemma fs_detect_continue:
  "fs_in_mountain w \<Longrightarrow> force > 0 \<Longrightarrow>
   fs_detect_mountain w timestamp force =
     Some (w\<lparr>fs_current_mountain := fs_current_mountain w @ [(timestamp, force)]\<rparr>, [])"
  by (simp add: fs_detect_mountain_def)

lemma fs_detect_accept:
  "fs_in_mountain w \<Longrightarrow> force \<le> 0 \<Longrightarrow> timestamp - last_mountain_timestamp w \<ge> 1 \<Longrightarrow>
   fs_detect_mountain w timestamp force =
     Some (w\<lparr>fs_current_mountain := fs_current_mountain w @ [(timestamp, force)],
             fs_in_mountain := False, fs_status_label := Detected,
             last_mountain_timestamp := timestamp\<rparr>,
           [MountainDetected (fs_current_mountain w @ [(timestamp, force)]),
            MaxValueUpdated timestamp
              (Max (snd ` set (fs_current_mountain w @ [(timestamp, force)])))
              (fs_current_mountain w @ [(timestamp, force)])])"
  by (simp add: fs_detect_mountain_def Let_def py_max_snoc del: py_max.simps)

lemma fs_detect_ignore:
  "fs_in_mountain w \<Longrightarrow> force \<le> 0 \<Longrightarrow> timestamp - last_mountain_timestamp w < 1 \<Longrightarrow>
   fs_detect_mountain w timestamp force =
     Some (w\<lparr>fs_current_mountain := fs_current_mountain w @ [(timestamp, force)],
             fs_in_mountain := False,
             fs_status_label := Ignoring (1 - (timestamp - last_mountain_timestamp w))\<rparr>, [])"
  by (simp add: fs_detect_mountain_def Let_def)

lemma pm_detect_start:
  "\<not> pm_in_mountain w \<Longrightarrow> prev_force_of (pm_data_buffer w) \<le> 100 \<Longrightarrow> force > 100 \<Longrightarrow>
   pm_detect_mountain w timestamp force =
     Some (w\<lparr>pm_in_mountain := True, pm_current_mountain := [(timestamp, force)],
             pm_status_label := Punching\<rparr>, [])"
  by (simp add: pm_detect_mountain_def)

lemma pm_detect_idle:
  "\<not> pm_in_mountain w \<Longrightarrow> \<not> (prev_force_of (pm_data_buffer w) \<le> 100 \<and> force > 100) \<Longrightarrow>
   pm_detect_mountain w timestamp force = Some (w, [])"
  by (auto simp add: pm_detect_mountain_def)

lemma pm_detect_continue:
  "pm_in_mountain w \<Longrightarrow> force > 50 \<Longrightarrow>
   pm_detect_mountain w timestamp force =
     Some (w\<lparr>pm_current_mountain := pm_current_mountain w @ [(timestamp, force)]\<rparr>, [])"
  by (simp add: pm_detect_mountain_def)

lemma pm_detect_finish:
  "pm_in_mountain w \<Longrightarrow> force \<le> 50 \<Longrightarrow>
   \<exists>sw. update_score (score_widget w)
           (Max (snd ` set (pm_current_mountain w @ [(timestamp, force)]))) = Some sw \<and>
     pm_detect_mountain w timestamp force =
       Some (w\<lparr>pm_current_mountain := pm_current_mountain w @ [(timestamp, force)],
               pm_in_mountain := False, score_widget := sw,
               mountain_count := mountain_count w + 1,
               pm_status_label := Completed (mountain_count w + 1)
                 (py_int (Max (snd ` set (pm_current_mountain w @ [(timestamp, force)]))))\<rparr>,
             [pm_current_mountain w @ [(timestamp, force)]])"
  by (simp add: pm_detect_mountain_def Let_def py_max_snoc update_score_def
      update_high_score_Some del: py_max.simps)

subsection \<open>The tracker and totality of the detectors\<close>

lemma update_max_value_ge: "force \<le> max_force (update_max_value w timestamp force md)"
  by (simp add: update_max_value_def Let_def)

lemma fs_detect_total: "\<exists>w' sigs. fs_detect_mountain w t f = Some (w', sigs)"
proof -
  consider (start) "\<not> fs_in_mountain w" "prev_force_of (fs_data_buffer w) \<le> 0 \<and> f > 0"
    | (idle) "\<not> fs_in_mountain w" "\<not> (prev_force_of (fs_data_buffer w) \<le> 0 \<and> f > 0)"
    | (continue) "fs_in_mountain w" "f > 0"
    | (accept) "fs_in_mountain w" "f \<le> 0" "t - last_mountain_timestamp w \<ge> 1"
    | (ignore) "fs_in_mountain w" "f \<le> 0" "t - last_mountain_timestamp w < 1"
    by fastforce
  then show ?thesis
  proof cases
    case start then show ?thesis by (simp add: fs_detect_start)
  next
    case idle then show ?thesis by (simp add: fs_detect_idle)
  next
    case continue then show ?thesis by (simp add: fs_detect_continue)
  next
    case accept then show ?thesis by (simp add: fs_detect_accept)
  next
    case ignore then show ?thesis by (simp add: fs_detect_ignore)
  qed
qed

subsection \<open>The two histories\<close>

lemma foldl_add_new_waveform:
  "\<forall>ev \<in> set evs. ev \<noteq> [] \<Longrightarrow> length h \<le> 3 \<Longrightarrow>
   foldl add_new_waveform h evs = take 3 (rev evs @ h)"
proof (induction evs arbitrary: h)
  case Nil
  then show ?case by simp
next
  case (Cons e evs)
  have "foldl add_new_waveform h (e # evs) = foldl add_new_waveform (take 3 (e # h)) evs"
    using Cons.prems by (simp add: add_new_waveform_def)
  also have "\<dots> = take 3 (rev evs @ take 3 (e # h))"
    using Cons.prems by (intro Cons.IH) simp_all
  also have "\<dots> = take 3 (rev (e # evs) @ h)"
    by (simp add: take_Cons' min_def)
  finally show ?case .
qed

lemma show_mountain_drop:
  "length h \<le> 3 \<Longrightarrow> show_mountain h e = drop (length (h @ [e]) - 3) (h @ [e])"
  by (cases h) (auto simp: show_mountain_def Let_def drop_Cons' numeral_eq_Suc)

lemma drop_last3_snoc:
  "drop (length (drop (length xs - 3) xs @ [e]) - 3) (drop (length xs - 3) xs @ [e])
     = drop (length (xs @ [e]) - 3) (xs @ [e])"
proof (cases "length xs \<le> 3")
  case True
  then show ?thesis by simp
next
  case False
  then obtain k where k: "length xs = k + 3"
    by (metis add.commute le_add_diff_inverse linorder_not_le nat_less_le)
  then show ?thesis by simp
qed

lemma foldl_show_mountain:
  "length h \<le> 3 \<Longrightarrow> foldl show_mountain h evs = drop (length (h @ evs) - 3) (h @ evs)"
proof (induction evs rule: rev_induct)
  case Nil
  then show ?case by simp
next
  case (snoc e evs)
  let ?r = "drop (length (h @ evs) - 3) (h @ evs)"
  have r: "foldl show_mountain h evs = ?r" using snoc by simp
  have "length ?r \<le> 3" by simp
  then have "show_mountain ?r e = drop (length (?r @ [e]) - 3) (?r @ [e])"
    by (rule show_mountain_drop)
  also have "\<dots> = drop (length ((h @ evs) @ [e]) - 3) ((h @ evs) @ [e])"
    by (rule drop_last3_snoc)
  finally have "show_mountain ?r e = drop (length (h @ evs @ [e]) - 3) (h @ evs @ [e])"
    by (simp only: append_assoc)
  then show ?case using r by (simp only: foldl_append foldl.simps)
qed

subsection \<open>The example states are reached from the initial state\<close>

lemma examples_reachable:
  "fs_run fs_main_init [(1, 10), (11/10, 0), (3/2, 30)] = Some fs_second_pulse"
  "pm_run pm_main_init [(0, 0), (1, 150), (11/10, 0), (3/2, 150)] = Some pm_second_punch"
  unfolding fs_second_pulse_def pm_second_punch_def by code_simp code_simp

subsection \<open>The sliding window buffer\<close>

lemma evict_old_dropWhile:
  "evict_old latest_time es = dropWhile (\<lambda>e. latest_time - fst e > 5) es"
  by (induction es) simp_all

lemma deque_append_suffix: "\<exists>j. deque_append n d x = drop j (d @ [x])"
proof (cases "length d < n")
  case True
  then have "deque_append n d x = drop 0 (d @ [x])" by (simp add: deque_append_def)
  then show ?thesis by blast
next
  case False
  show ?thesis
  proof (cases d)
    case Nil
    then have "deque_append n d x = drop 0 (d @ [x])" by (simp add: deque_append_def)
    then show ?thesis by blast
  next
    case (Cons a as)
    then have "deque_append n d x = drop 1 (d @ [x])" using False by (simp add: deque_append_def)
    then show ?thesis by blast
  qed
qed


lemma update_plot_suffix: "\<exists>i. update_plot ys = drop i ys"
proof (cases "length ys < 2")
  case True
  then have "update_plot ys = drop 0 ys" by (simp add: update_plot_def)
  then show ?thesis by blast
next
  case False
  then show ?thesis
    unfolding update_plot_def evict_old_dropWhile dropWhile_eq_drop by auto
qed


lemma buffer_step_suffix: "\<exists>k. buffer_step buf s = drop k (buf @ [s])"
proof -
  obtain j where j: "deque_append 500 buf s = drop j (buf @ [s])"
    using deque_append_suffix [of 500 buf s] by (elim exE)
  obtain i where "update_plot (deque_append 500 buf s) = drop i (deque_append 500 buf s)"
    using update_plot_suffix by blast
  then have "buffer_step buf s = drop i (drop j (buf @ [s]))"
    by (simp only: buffer_step_def j)
  then show ?thesis by (metis drop_drop)
qed




lemma foldl_buffer_step_subset: "set (foldl buffer_step buf xs) \<subseteq> set (buf @ xs)"
proof (induction xs rule: rev_induct)
  case Nil
  show ?case by simp
next
  case (snoc x xs)
  obtain k where k: "buffer_step (foldl buffer_step buf xs) x
      = drop k (foldl buffer_step buf xs @ [x])"
    using buffer_step_suffix by blast
  have "set (drop k (foldl buffer_step buf xs @ [x])) \<subseteq> set (foldl buffer_step buf xs @ [x])"
    by (rule set_drop_subset)
  then show ?case using snoc k by auto
qed









subsection \<open>The leaderboard\<close>

lemma sorted_last_Max: "sorted xs \<Longrightarrow> xs \<noteq> [] \<Longrightarrow> last xs = Max (set xs)"
proof (induction xs)
  case Nil
  then show ?case by simp
next
  case (Cons a xs)
  show ?case
  proof (cases "xs = []")
    case True
    then show ?thesis by simp
  next
    case False
    then have "last xs = Max (set xs)" using Cons by simp
    moreover have "a \<le> Max (set xs)"
    proof -
      have "hd xs \<in> set xs" using False by simp
      then have "a \<le> hd xs" "hd xs \<le> Max (set xs)" using Cons.prems by simp_all
      then show ?thesis by simp
    qed
    ultimately show ?thesis using False by (simp add: max_def)
  qed
qed

lemma sort_not_Nil: "ys \<noteq> [] \<Longrightarrow> sort ys \<noteq> ([] :: int list)"
  by (metis length_0_conv length_sort)

lemma top5_hd: "ys \<noteq> [] \<Longrightarrow> hd (take 5 (rev (sort ys))) = Max (set (ys :: int list))"
  using sorted_last_Max [of "sort ys"] sort_not_Nil [of ys] by (simp add: hd_rev)

lemma top5_sorted: "sorted (rev (take 5 (rev (sort (ys :: int list)))))"
  by (simp add: rev_take)

lemma top5_set: "set (take 5 (rev (sort ys))) \<subseteq> set (ys :: int list)"
  using set_take_subset [of 5 "rev (sort ys)"] by simp

lemma sorted_rev_hd_Max:
  "sorted (rev hs) \<Longrightarrow> hs \<noteq> [] \<Longrightarrow> hd hs = Max (set (hs :: int list))"
  using sorted_last_Max [of "rev hs"] by (simp add: last_rev)

lemma update_score_Some:
  "\<exists>w'. update_score w mx = Some w'
     \<and> high_scores w' = take 5 (rev (sort (high_scores w @ [py_int mx])))
     \<and> fst (high_score_label w') = hd (take 5 (rev (sort (high_scores w @ [py_int mx]))))
     \<and> score_label w' = py_int mx"
  by (simp add: update_score_def Let_def update_high_score_Some)

lemma update_scores_snoc:
  "update_scores w (peaks @ [mx]) =
     (case update_scores w peaks of None \<Rightarrow> None | Some w' \<Rightarrow> update_score w' mx)"
  by (induction peaks arbitrary: w) (simp_all split: option.splits)

lemma update_scores_inv:
  "\<exists>w. update_scores pm_score_init peaks = Some w
     \<and> sorted (rev (high_scores w)) \<and> length (high_scores w) \<le> 5
     \<and> set (high_scores w) \<subseteq> set (map py_int peaks)
     \<and> (peaks = [] \<longrightarrow> w = pm_score_init)
     \<and> (peaks \<noteq> [] \<longrightarrow> high_scores w \<noteq> []
           \<and> hd (high_scores w) = Max (set (map py_int peaks))
           \<and> fst (high_score_label w) = Max (set (map py_int peaks)))"
proof (induction peaks rule: rev_induct)
  case Nil
  show ?case by (simp add: pm_score_init_def)
next
  case (snoc mx peaks)
  then obtain w where w: "update_scores pm_score_init peaks = Some w"
    "sorted (rev (high_scores w))" "set (high_scores w) \<subseteq> set (map py_int peaks)"
    "peaks = [] \<longrightarrow> w = pm_score_init"
    "peaks \<noteq> [] \<longrightarrow> high_scores w \<noteq> [] \<and> hd (high_scores w) = Max (set (map py_int peaks))"
    by blast
  let ?ys = "high_scores w @ [py_int mx]"
  obtain w' where w': "update_score w mx = Some w'"
    "high_scores w' = take 5 (rev (sort ?ys))"
    "fst (high_score_label w') = hd (take 5 (rev (sort ?ys)))"
    using update_score_Some by blast
  have run: "update_scores pm_score_init (peaks @ [mx]) = Some w'"
    using w(1) w'(1) by (simp add: update_scores_snoc)
  have top: "hd (take 5 (rev (sort ?ys))) = Max (set ?ys)"
    by (rule top5_hd) simp
  have "Max (set ?ys) = Max (set (map py_int (peaks @ [mx])))"
  proof (cases "peaks = []")
    case True
    then show ?thesis using w(4) by (simp add: pm_score_init_def)
  next
    case False
    then have h: "high_scores w \<noteq> []" "hd (high_scores w) = Max (set (map py_int peaks))"
      using w(5) by simp_all
    have "Max (set (high_scores w)) = Max (set (map py_int peaks))"
      using sorted_rev_hd_Max [OF w(2) h(1)] h(2) by simp
    then show ?thesis using h(1) False by simp
  qed
  with top have m: "hd (take 5 (rev (sort ?ys))) = Max (set (map py_int (peaks @ [mx])))"
    by simp
  have "set (high_scores w') \<subseteq> set (map py_int (peaks @ [mx]))"
    using top5_set [of ?ys] w(3) w'(2) by auto
  moreover have "high_scores w' \<noteq> []"
    using w'(2) sort_not_Nil [of ?ys] by simp
  moreover have "sorted (rev (high_scores w'))" unfolding w'(2) by (rule top5_sorted)
  moreover have "length (high_scores w') \<le> 5" unfolding w'(2) by simp
  ultimately show ?case using run m w'(2,3) by simp
qed


lemma py_int_mono_100: "100 < x \<Longrightarrow> 100 \<le> py_int x"
  by (simp add: py_int_def le_floor_iff)

lemma pm_update_data_inv:
  assumes "pm_inv (pm_realtime_widget m)"
  shows "\<exists>m'. pm_update_data m t f = Some m' \<and> pm_inv (pm_realtime_widget m')
     \<and> fst (high_score_label (score_widget (pm_realtime_widget m)))
         \<le> fst (high_score_label (score_widget (pm_realtime_widget m')))"
proof -
  let ?w = "pm_realtime_widget m"
  let ?w0 = "?w\<lparr>pm_data_buffer := deque_append 500 (pm_data_buffer ?w) (t, f)\<rparr>"
  have inv0: "pm_inv ?w0" using assms by (simp add: pm_inv_def)
  consider (start) "\<not> pm_in_mountain ?w0" "prev_force_of (pm_data_buffer ?w0) \<le> 100" "f > 100"
    | (idle) "\<not> pm_in_mountain ?w0" "\<not> (prev_force_of (pm_data_buffer ?w0) \<le> 100 \<and> f > 100)"
    | (continue) "pm_in_mountain ?w0" "f > 50"
    | (finish) "pm_in_mountain ?w0" "f \<le> 50"
    by fastforce
  then show ?thesis
  proof cases
    case start
    from pm_detect_start [OF this, of t] inv0 start(3) show ?thesis
      by (simp add: pm_update_data_def Let_def pm_inv_def)
  next
    case idle
    from pm_detect_idle [OF this, of t] inv0 show ?thesis
      by (simp add: pm_update_data_def Let_def pm_inv_def)
  next
    case continue
    from pm_detect_continue [OF this, of t] inv0 show ?thesis
      by (simp add: pm_update_data_def Let_def pm_inv_def)
  next
    case finish
    let ?cm = "pm_current_mountain ?w0 @ [(t, f)]"
    let ?mx = "Max (snd ` set ?cm)"
    let ?hs = "high_scores (score_widget ?w0)"
    let ?ys = "?hs @ [py_int ?mx]"
    from pm_detect_finish [OF finish, of t] obtain sw where
      sw: "update_score (score_widget ?w0) ?mx = Some sw"
      and d: "pm_detect_mountain ?w0 t f =
       Some (?w0\<lparr>pm_current_mountain := ?cm,
               pm_in_mountain := False, score_widget := sw,
               mountain_count := mountain_count ?w0 + 1,
               pm_status_label := Completed (mountain_count ?w0 + 1) (py_int ?mx)\<rparr>,
             [?cm])"
      by blast
    from update_score_Some [of "score_widget ?w0" ?mx] sw
    have hs: "high_scores sw = take 5 (rev (sort ?ys))"
      and lab: "fst (high_score_label sw) = hd (take 5 (rev (sort ?ys)))"
      by simp_all
    have top: "hd (take 5 (rev (sort ?ys))) = Max (set ?ys)" by (rule top5_hd) simp
    have ne: "high_scores sw \<noteq> []" using hs sort_not_Nil [of ?ys] by simp
    have srt: "sorted (rev (high_scores sw))" unfolding hs by (rule top5_sorted)
    have lab': "fst (high_score_label sw) = (case high_scores sw of [] \<Rightarrow> 0 | best # _ \<Rightarrow> best)"
    proof -
      have "fst (high_score_label sw) = hd (high_scores sw)" using lab hs by (simp only:)
      then show ?thesis using ne by (cases "high_scores sw") simp_all
    qed
    obtain s where s: "s \<in> set (pm_current_mountain ?w0)" "snd s > 100"
      using inv0 finish(1) by (auto simp add: pm_inv_def list_ex_iff)
    then have "snd s \<le> ?mx" by simp
    then have "100 \<le> py_int ?mx" using s(2) by (intro py_int_mono_100) simp
    then have ge0: "0 \<le> Max (set ?ys)" by (simp add: Max_ge_iff)
    have old: "fst (high_score_label (score_widget ?w0)) \<le> Max (set ?ys)"
    proof (cases ?hs)
      case Nil
      then show ?thesis using inv0 ge0 by (simp add: pm_inv_def)
    next
      case (Cons b bs)
      then have "fst (high_score_label (score_widget ?w0)) = b" using inv0 by (simp add: pm_inv_def)
      then show ?thesis using Cons by (simp add: Max_ge_iff)
    qed
    show ?thesis
      using d srt lab' old lab top
      by (simp add: pm_update_data_def Let_def pm_inv_def)
  qed
qed

lemma pm_run_inv:
  "pm_inv (pm_realtime_widget m) \<Longrightarrow>
   \<exists>m'. pm_run m xs = Some m' \<and> pm_inv (pm_realtime_widget m')
     \<and> fst (high_score_label (score_widget (pm_realtime_widget m)))
         \<le> fst (high_score_label (score_widget (pm_realtime_widget m')))"
proof (induction xs arbitrary: m)
  case Nil
  then show ?case by simp
next
  case (Cons x xs)
  obtain t f where x: "x = (t, f)" by (cases x)
  from pm_update_data_inv [OF Cons.prems, of t f] obtain m1 where
    m1: "pm_update_data m t f = Some m1" "pm_inv (pm_realtime_widget m1)"
      "fst (high_score_label (score_widget (pm_realtime_widget m)))
         \<le> fst (high_score_label (score_widget (pm_realtime_widget m1)))"
    by blast
  from Cons.IH [OF m1(2)] obtain m' where
    "pm_run m1 xs = Some m'" "pm_inv (pm_realtime_widget m')"
      "fst (high_score_label (score_widget (pm_realtime_widget m1)))
         \<le> fst (high_score_label (score_widget (pm_realtime_widget m')))"
    by blast
  then show ?case using m1 x by simp
qed

lemma pm_run_append:
  "pm_run m (xs @ ys) = (case pm_run m xs of None \<Rightarrow> None | Some m' \<Rightarrow> pm_run m' ys)"
  by (induction xs arbitrary: m) (auto split: option.splits)

lemma pm_inv_init: "pm_inv (pm_realtime_widget pm_main_init)"
  by (simp add: pm_inv_def pm_main_init_def pm_init_data_def pm_score_init_def)

section \<open>The claims\<close>

subsection \<open>C1\<close>




subsection \<open>C2\<close>

text \<open>
  C2, as stated: the scenario with thresholds 100 and 50 gives one event that spans the
  timestamps 0.1 to 0.4. It does not: the sample at 0.1 has force 50, which is not above
  100, so the event begins with the sample at 0.2.
\<close>

theorem C2_counterexample:
  "map_option (map event_span \<circ> mountain_window) (pm_run pm_main_init detection_scenario)
     \<noteq> Some [Some (1/10, 2/5)]"
  unfolding detection_scenario_def by code_simp

text \<open>
  C2, amended: from the initial state the scenario gives exactly one event, the samples
  at 0.2, 0.3 and 0.4; it spans the timestamps 0.2 to 0.4, its peak is 150, the punch
  counter is 1 and the score shown is 150.
\<close>

theorem C2_detection_scenario:
  "map_option (\<lambda>m. (mountain_window m, mountain_count (pm_realtime_widget m),
                     score_label (score_widget (pm_realtime_widget m)),
                     pm_in_mountain (pm_realtime_widget m)))
      (pm_run pm_main_init detection_scenario)
     = Some ([[(1/5, 150), (3/10, 80), (2/5, 0)]], 1, 150, False)
   \<and> event_span [(1/5, 150), (3/10, 80), (2/5, 0)] = Some (1/5, 2/5)
   \<and> py_max (map snd [(1/5, 150), (3/10, 80), (2/5, 0)]) = Some 150"
  unfolding detection_scenario_def by code_simp

subsection \<open>C3\<close>

text \<open>
  C3, as stated: in every stream, of two candidate events finalised less than 1.0 s apart
  only one is accepted, and the history does not grow for the second. The detector of
  \<^verbatim>\<open>punchingmachine.py\<close> has no debounce (\<^verbatim>\<open>last_mountain_time\<close> is never read): two
  punches finalised at 1.1 and 1.6 are both counted and both enter the history.
\<close>

theorem C3_counterexample:
  "map_option (\<lambda>m. (mountain_count (pm_realtime_widget m), length (mountain_window m)))
     (pm_run pm_main_init two_punches) = Some (2, 2)"
  unfolding two_punches_def by code_simp

text \<open>
  C3, amended: in \<^verbatim>\<open>fullscreen_grf.py\<close> a candidate finalised at timestamp \<open>t\<close> is
  accepted exactly when \<open>t - last_mountain_timestamp \<ge> 1\<close>, and
  \<^verbatim>\<open>last_mountain_timestamp\<close> is the finalisation timestamp of the last accepted event
  (0 before the first): accepting sets it to \<open>t\<close> and puts the event at the front of
  the history, and no other sample changes either. A candidate finalised less than
  1.0 s after it is marked ignored with the remaining time; the history and
  \<^verbatim>\<open>last_mountain_timestamp\<close> stay as they are and the tracker gets the raw sample
  only. In \<^verbatim>\<open>punchingmachine.py\<close> every finalised candidate is accepted: the counter
  grows by one and the event enters the history.
\<close>

theorem C3_debounce_by_variant:
  "(fs_in_mountain (fs_realtime_widget m) \<and> f \<le> 0
      \<and> t - last_mountain_timestamp (fs_realtime_widget m) < 1 \<longrightarrow>
    map_option (\<lambda>m'. (past_waveforms_widget m', last_mountain_timestamp (fs_realtime_widget m'),
                       fs_status_label (fs_realtime_widget m'), max_value_widget m',
                       fs_in_mountain (fs_realtime_widget m')))
      (fs_update_data m t f)
    = Some (past_waveforms_widget m, last_mountain_timestamp (fs_realtime_widget m),
            Ignoring (1 - (t - last_mountain_timestamp (fs_realtime_widget m))),
            update_max_value (max_value_widget m) t f [], False))
   \<and> (fs_in_mountain (fs_realtime_widget m) \<and> f \<le> 0
      \<and> t - last_mountain_timestamp (fs_realtime_widget m) \<ge> 1 \<longrightarrow>
    map_option (\<lambda>m'. (past_waveforms_widget m', last_mountain_timestamp (fs_realtime_widget m'),
                       fs_status_label (fs_realtime_widget m'),
                       fs_in_mountain (fs_realtime_widget m')))
      (fs_update_data m t f)
    = Some (take 3 ((fs_current_mountain (fs_realtime_widget m) @ [(t, f)])
                      # past_waveforms_widget m), t, Detected, False))
   \<and> (\<not> (fs_in_mountain (fs_realtime_widget m) \<and> f \<le> 0) \<longrightarrow>
    map_option (\<lambda>m'. (past_waveforms_widget m', last_mountain_timestamp (fs_realtime_widget m')))
      (fs_update_data m t f)
    = Some (past_waveforms_widget m, last_mountain_timestamp (fs_realtime_widget m)))
   \<and> (pm_in_mountain (pm_realtime_widget n) \<and> f \<le> 50 \<longrightarrow>
    map_option (\<lambda>n'. (mountain_window n', mountain_count (pm_realtime_widget n'),
                       pm_in_mountain (pm_realtime_widget n')))
      (pm_update_data n t f)
    = Some (show_mountain (mountain_window n)
              (pm_current_mountain (pm_realtime_widget n) @ [(t, f)]),
            mountain_count (pm_realtime_widget n) + 1, False))"
proof (intro conjI impI)
  let ?w0 = "fs_realtime_widget m\<lparr>fs_data_buffer :=
           deque_append 500 (fs_data_buffer (fs_realtime_widget m)) (t, f)\<rparr>"
  {
    assume a: "fs_in_mountain (fs_realtime_widget m) \<and> f \<le> 0
      \<and> t - last_mountain_timestamp (fs_realtime_widget m) < 1"
    then have "fs_in_mountain ?w0" "f \<le> 0" "t - last_mountain_timestamp ?w0 < 1"
      by simp_all
    from fs_detect_ignore [OF this]
    show "map_option (\<lambda>m'. (past_waveforms_widget m', last_mountain_timestamp (fs_realtime_widget m'),
                       fs_status_label (fs_realtime_widget m'), max_value_widget m',
                       fs_in_mountain (fs_realtime_widget m')))
      (fs_update_data m t f)
    = Some (past_waveforms_widget m, last_mountain_timestamp (fs_realtime_widget m),
            Ignoring (1 - (t - last_mountain_timestamp (fs_realtime_widget m))),
            update_max_value (max_value_widget m) t f [], False)"
      by (simp add: fs_update_data_def Let_def)
  }
  {
    assume a: "fs_in_mountain (fs_realtime_widget m) \<and> f \<le> 0
      \<and> t - last_mountain_timestamp (fs_realtime_widget m) \<ge> 1"
    then have "fs_in_mountain ?w0" "f \<le> 0" "t - last_mountain_timestamp ?w0 \<ge> 1"
      by simp_all
    from fs_detect_accept [OF this]
    show "map_option (\<lambda>m'. (past_waveforms_widget m', last_mountain_timestamp (fs_realtime_widget m'),
                       fs_status_label (fs_realtime_widget m'),
                       fs_in_mountain (fs_realtime_widget m')))
      (fs_update_data m t f)
    = Some (take 3 ((fs_current_mountain (fs_realtime_widget m) @ [(t, f)])
                      # past_waveforms_widget m), t, Detected, False)"
      by (simp add: fs_update_data_def Let_def add_new_waveform_def)
  }
  {
    assume a: "\<not> (fs_in_mountain (fs_realtime_widget m) \<and> f \<le> 0)"
    consider (start) "\<not> fs_in_mountain ?w0" "prev_force_of (fs_data_buffer ?w0) \<le> 0" "f > 0"
      | (idle) "\<not> fs_in_mountain ?w0" "\<not> (prev_force_of (fs_data_buffer ?w0) \<le> 0 \<and> f > 0)"
      | (continue) "fs_in_mountain ?w0" "f > 0"
      using a by fastforce
    then show "map_option (\<lambda>m'. (past_waveforms_widget m', last_mountain_timestamp (fs_realtime_widget m')))
      (fs_update_data m t f)
    = Some (past_waveforms_widget m, last_mountain_timestamp (fs_realtime_widget m))"
    proof cases
      case start
      from fs_detect_start [OF this] show ?thesis by (simp add: fs_update_data_def Let_def)
    next
      case idle
      from fs_detect_idle [OF this] show ?thesis by (simp add: fs_update_data_def Let_def)
    next
      case continue
      from fs_detect_continue [OF this] show ?thesis by (simp add: fs_update_data_def Let_def)
    qed
  }
  {
    let ?v0 = "pm_realtime_widget n\<lparr>pm_data_buffer :=
           deque_append 500 (pm_data_buffer (pm_realtime_widget n)) (t, f)\<rparr>"
    assume a: "pm_in_mountain (pm_realtime_widget n) \<and> f \<le> 50"
    then have "pm_in_mountain ?v0" "f \<le> 50" by simp_all
    from pm_detect_finish [OF this, of t] obtain sw where
      "pm_detect_mountain ?v0 t f =
       Some (?v0\<lparr>pm_current_mountain := pm_current_mountain ?v0 @ [(t, f)],
               pm_in_mountain := False, score_widget := sw,
               mountain_count := mountain_count ?v0 + 1,
               pm_status_label := Completed (mountain_count ?v0 + 1)
                 (py_int (Max (snd ` set (pm_current_mountain ?v0 @ [(t, f)]))))\<rparr>,
             [pm_current_mountain ?v0 @ [(t, f)]])"
      by blast
    then show "map_option (\<lambda>n'. (mountain_window n', mountain_count (pm_realtime_widget n'),
                       pm_in_mountain (pm_realtime_widget n')))
      (pm_update_data n t f)
    = Some (show_mountain (mountain_window n)
              (pm_current_mountain (pm_realtime_widget n) @ [(t, f)]),
            mountain_count (pm_realtime_widget n) + 1, False)"
      by (simp add: pm_update_data_def Let_def)
  }
qed

theorem C3_debounce_by_variant_witness:
  "fs_run fs_main_init [(1, 10), (11/10, 0), (3/2, 30)] = Some fs_second_pulse
   \<and> fs_in_mountain (fs_realtime_widget fs_second_pulse)
   \<and> 8/5 - last_mountain_timestamp (fs_realtime_widget fs_second_pulse) < 1
   \<and> map_option (\<lambda>m'. (past_waveforms_widget m', last_mountain_timestamp (fs_realtime_widget m'),
                       fs_status_label (fs_realtime_widget m')))
       (fs_update_data fs_second_pulse (8/5) 0)
     = Some ([[(1, 10), (11/10, 0)]], 11/10, Ignoring (1/2))
   \<and> 3 - last_mountain_timestamp (fs_realtime_widget fs_second_pulse) \<ge> 1
   \<and> map_option (\<lambda>m'. (past_waveforms_widget m', last_mountain_timestamp (fs_realtime_widget m'),
                       fs_status_label (fs_realtime_widget m')))
       (fs_update_data fs_second_pulse 3 0)
     = Some ([[(3/2, 30), (3, 0)], [(1, 10), (11/10, 0)]], 3, Detected)
   \<and> map_option (\<lambda>m'. (past_waveforms_widget m', last_mountain_timestamp (fs_realtime_widget m')))
       (fs_update_data fs_second_pulse (8/5) 40)
     = Some ([[(1, 10), (11/10, 0)]], 11/10)
   \<and> pm_run pm_main_init [(0, 0), (1, 150), (11/10, 0), (3/2, 150)] = Some pm_second_punch
   \<and> pm_in_mountain (pm_realtime_widget pm_second_punch)
   \<and> map_option (\<lambda>n'. (mountain_window n', mountain_count (pm_realtime_widget n')))
       (pm_update_data pm_second_punch (8/5) 0)
     = Some ([[(1, 150), (11/10, 0)], [(3/2, 150), (8/5, 0)]], 2)"
proof -
  have h: "fs_in_mountain (fs_realtime_widget fs_second_pulse)"
    "8/5 - last_mountain_timestamp (fs_realtime_widget fs_second_pulse) < 1"
    "3 - last_mountain_timestamp (fs_realtime_widget fs_second_pulse) \<ge> 1"
    "pm_in_mountain (pm_realtime_widget pm_second_punch)"
    by (simp_all add: fs_second_pulse_def pm_second_punch_def)
  have v: "past_waveforms_widget fs_second_pulse = [[(1, 10), (11/10, 0)]]"
    "last_mountain_timestamp (fs_realtime_widget fs_second_pulse) = 11/10"
    "fs_current_mountain (fs_realtime_widget fs_second_pulse) = [(3/2, 30)]"
    "mountain_window pm_second_punch = [[(1, 150), (11/10, 0)]]"
    "mountain_count (pm_realtime_widget pm_second_punch) = 1"
    "pm_current_mountain (pm_realtime_widget pm_second_punch) = [(3/2, 150)]"
    by (simp_all add: fs_second_pulse_def pm_second_punch_def)
  note c1 = C3_debounce_by_variant [of fs_second_pulse 0 "8/5" pm_second_punch]
  note c2 = C3_debounce_by_variant [of fs_second_pulse 0 3 pm_second_punch]
  note c3 = C3_debounce_by_variant [of fs_second_pulse 40 "8/5" pm_second_punch]
  have a1: "map_option (\<lambda>m'. (past_waveforms_widget m', last_mountain_timestamp (fs_realtime_widget m'),
                       fs_status_label (fs_realtime_widget m')))
       (fs_update_data fs_second_pulse (8/5) 0)
     = Some ([[(1, 10), (11/10, 0)]], 11/10, Ignoring (1/2))"
    using c1 h v by (auto simp add: map_option_case split: option.splits)
  have a2: "map_option (\<lambda>m'. (past_waveforms_widget m', last_mountain_timestamp (fs_realtime_widget m'),
                       fs_status_label (fs_realtime_widget m')))
       (fs_update_data fs_second_pulse 3 0)
     = Some ([[(3/2, 30), (3, 0)], [(1, 10), (11/10, 0)]], 3, Detected)"
    using c2 h v by (auto simp add: map_option_case split: option.splits)
  have a3: "map_option (\<lambda>m'. (past_waveforms_widget m', last_mountain_timestamp (fs_realtime_widget m')))
       (fs_update_data fs_second_pulse (8/5) 40)
     = Some ([[(1, 10), (11/10, 0)]], 11/10)"
    using c3 h v by (auto simp add: map_option_case split: option.splits)
  have a4: "map_option (\<lambda>n'. (mountain_window n', mountain_count (pm_realtime_widget n')))
       (pm_update_data pm_second_punch (8/5) 0)
     = Some ([[(1, 150), (11/10, 0)], [(3/2, 150), (8/5, 0)]], 2)"
    using c1 h v by (auto simp add: map_option_case show_mountain_def split: option.splits)
  show ?thesis using a1 a2 a3 a4 h examples_reachable by simp
qed

subsection \<open>C4\<close>




subsection \<open>C5\<close>

text \<open>
  C5, as stated: every accepted event is inserted at the front of the history, which is
  read newest first, so that four pulses leave the newest three, newest first. In
  \<^verbatim>\<open>punchingmachine.py\<close> \<^verbatim>\<open>show_mountain\<close> appends at the back and drops from the front:
  the four events of the scenario leave the newest three oldest first, and so do four
  punches with peaks 110 to 140 sent through the detector.
\<close>

theorem C5_counterexample:
  "foldl show_mountain []
     [[(1, 10), (11/10, 0)], [(3, 20), (31/10, 0)], [(5, 30), (51/10, 0)], [(7, 40), (71/10, 0)]]
     = [[(3, 20), (31/10, 0)], [(5, 30), (51/10, 0)], [(7, 40), (71/10, 0)]]
   \<and> map_option (map event_peak \<circ> mountain_window) (pm_run pm_main_init four_pulses_110_140)
     = Some [Some 120, Some 130, Some 140]"
  unfolding four_pulses_110_140_def by code_simp

text \<open>
  C5, amended: both histories keep the newest three events. \<^verbatim>\<open>add_new_waveform\<close> of
  \<^verbatim>\<open>fullscreen_grf.py\<close> inserts each (non-empty) event at the front and truncates to
  three, so that after any events the history is the newest three, newest first; four
  accepted pulses with peaks 10, 20, 30, 40 leave the peaks 40, 30, 20.
  \<^verbatim>\<open>show_mountain\<close> of \<^verbatim>\<open>punchingmachine.py\<close> appends each event at the back and drops
  the front one beyond three, so that the history is the newest three, oldest first.
\<close>

theorem C5_history_order_by_variant:
  "([] \<notin> set evs \<longrightarrow> foldl add_new_waveform [] evs = take 3 (rev evs))
   \<and> foldl show_mountain [] evs = drop (length evs - 3) evs
   \<and> map_option (map event_peak \<circ> past_waveforms_widget) (fs_run fs_main_init four_pulses_10_40)
     = Some [Some 40, Some 30, Some 20]"
proof (intro conjI)
  show "[] \<notin> set evs \<longrightarrow> foldl add_new_waveform [] evs = take 3 (rev evs)"
    using foldl_add_new_waveform [of evs "[]"] by fastforce
  show "foldl show_mountain [] evs = drop (length evs - 3) evs"
    using foldl_show_mountain [of "[]" evs] by simp
  show "map_option (map event_peak \<circ> past_waveforms_widget) (fs_run fs_main_init four_pulses_10_40)
     = Some [Some 40, Some 30, Some 20]"
    unfolding four_pulses_10_40_def by code_simp
qed

theorem C5_history_order_by_variant_witness:
  "[] \<notin> set [[(1, 10), (11/10, 0)], [(3, 20), (31/10, 0)], [(5, 30), (51/10, 0)],
                [(7, 40), (71/10, 0 :: real)]]
   \<and> foldl add_new_waveform []
       [[(1, 10), (11/10, 0)], [(3, 20), (31/10, 0)], [(5, 30), (51/10, 0)], [(7, 40), (71/10, 0)]]
     = [[(7, 40), (71/10, 0)], [(5, 30), (51/10, 0)], [(3, 20), (31/10, 0)]]"
  using C5_history_order_by_variant
    [of "[[(1, 10), (11/10, 0)], [(3, 20), (31/10, 0)], [(5, 30), (51/10, 0)], [(7, 40), (71/10, 0)]]"]
  by simp

subsection \<open>C6\<close>




subsection \<open>C7\<close>

text \<open>
  C7, as stated: a stream whose very first sample is above the start threshold never
  begins an event by the crossing rule. It does, in both applications: with fewer than
  two buffered samples \<^verbatim>\<open>prev_force\<close> is 0, so the first sample itself crosses.
\<close>

theorem C7_counterexample:
  "map_option (\<lambda>m. (pm_in_mountain (pm_realtime_widget m),
                     pm_current_mountain (pm_realtime_widget m)))
      (pm_run pm_main_init [(0, 150)]) = Some (True, [(0, 150)])
   \<and> map_option (\<lambda>m. (fs_in_mountain (fs_realtime_widget m),
                     fs_current_mountain (fs_realtime_widget m)))
      (fs_run fs_main_init [(0, 5)]) = Some (True, [(0, 5)])"
  by code_simp

text \<open>
  C7, amended: when the very first sample is above the start threshold (100 in
  \<^verbatim>\<open>punchingmachine.py\<close>, 0 in \<^verbatim>\<open>fullscreen_grf.py\<close>), the detector goes from idle to
  active on that sample and the candidate event begins with it, because the previous
  force defaults to 0 while the buffer holds only that sample.
\<close>

theorem C7_first_sample_starts_event:
  "(f > 100 \<longrightarrow>
      map_option (\<lambda>m. (pm_in_mountain (pm_realtime_widget m),
                        pm_current_mountain (pm_realtime_widget m)))
        (pm_update_data pm_main_init t f) = Some (True, [(t, f)]))
   \<and> (f > 0 \<longrightarrow>
      map_option (\<lambda>m. (fs_in_mountain (fs_realtime_widget m),
                        fs_current_mountain (fs_realtime_widget m)))
        (fs_update_data fs_main_init t f) = Some (True, [(t, f)]))
   \<and> prev_force_of [(t, f)] = 0"
  by (simp add: pm_update_data_def pm_main_init_def pm_init_data_def pm_detect_mountain_def
      fs_update_data_def fs_main_init_def fs_init_data_def fs_detect_mountain_def
      prev_force_of_def deque_append_def Let_def)

theorem C7_first_sample_starts_event_witness:
  "(150::real) > 100 \<and> (5::real) > 0
   \<and> map_option (\<lambda>m. (pm_in_mountain (pm_realtime_widget m),
                        pm_current_mountain (pm_realtime_widget m)))
        (pm_update_data pm_main_init 0 150) = Some (True, [(0, 150)])
   \<and> map_option (\<lambda>m. (fs_in_mountain (fs_realtime_widget m),
                        fs_current_mountain (fs_realtime_widget m)))
        (fs_update_data fs_main_init 0 5) = Some (True, [(0, 5)])"
  using C7_first_sample_starts_event [of 150 0] C7_first_sample_starts_event [of 5 0]
  by simp

subsection \<open>C8\<close>



subsection \<open>C9\<close>

text \<open>
  C9, as stated: for every sample the tracker is updated with \<open>(t, f)\<close> before event
  detection completes. The order in \<^verbatim>\<open>update_data\<close> is the other one:
  \<^verbatim>\<open>detect_mountain\<close> runs first. On the sample that ends an accepted pulse the event
  has been emitted and its own tracker update has been made when the update for the
  sample itself is emitted, last.
\<close>

theorem C9_counterexample:
  "Option.bind (fs_run fs_main_init [(1, 10)])
     (\<lambda>m. fs_update_data_signals (fs_realtime_widget m) (11/10) 0)
   = Some [MountainDetected [(1, 10), (11/10, 0)],
           MaxValueUpdated (11/10) 10 [(1, 10), (11/10, 0)],
           MaxValueUpdated (11/10) 0 []]"
  by code_simp

text \<open>
  C9, amended: the tracker is updated on every raw sample. For every sample \<open>(t, f)\<close>,
  \<^verbatim>\<open>update_data\<close> emits \<^verbatim>\<open>max_value_updated(t, f, [])\<close> after \<^verbatim>\<open>detect_mountain(t, f)\<close>
  has returned, as the last signal of the call; the tracker is then
  \<^verbatim>\<open>update_max_value(t, f, [])\<close> of what the signals of the detection left, so its peak
  is at least \<open>f\<close>. Consequently a pulse that debounce ignores still raises the tracked
  maximum: in the stream of two pulses 0.5 s apart only the first enters the history,
  the second is marked ignored, and the tracked peak is the second pulse's 30.
\<close>

theorem C9_tracker_updated_on_every_sample:
  "(\<exists>m' w' sigs.
      fs_detect_mountain
        (fs_realtime_widget m\<lparr>fs_data_buffer :=
           deque_append 500 (fs_data_buffer (fs_realtime_widget m)) (t, f)\<rparr>) t f
        = Some (w', sigs)
      \<and> fs_update_data_signals (fs_realtime_widget m) t f
          = Some (sigs @ [MaxValueUpdated t f []])
      \<and> fs_update_data m t f = Some m'
      \<and> max_value_widget m'
          = update_max_value (max_value_widget (foldl fs_dispatch m sigs)) t f []
      \<and> f \<le> max_force (max_value_widget m'))
   \<and> map_option (\<lambda>m. (past_waveforms_widget m, fs_status_label (fs_realtime_widget m),
                       max_force (max_value_widget m)))
        (fs_run fs_main_init ignored_pulse_stream)
       = Some ([[(1, 10), (11/10, 0)]], Ignoring (1/2), 30)"
proof (rule conjI)
  let ?w0 = "fs_realtime_widget m\<lparr>fs_data_buffer :=
           deque_append 500 (fs_data_buffer (fs_realtime_widget m)) (t, f)\<rparr>"
  obtain w' sigs where d: "fs_detect_mountain ?w0 t f = Some (w', sigs)"
    using fs_detect_total by blast
  let ?m' = "(foldl fs_dispatch m (sigs @ [MaxValueUpdated t f []]))
               \<lparr>fs_realtime_widget := w'\<lparr>fs_data_buffer := update_plot (fs_data_buffer w')\<rparr>\<rparr>"
  have u: "fs_update_data m t f = Some ?m'"
    using d by (simp add: fs_update_data_def Let_def)
  have s: "fs_update_data_signals (fs_realtime_widget m) t f
          = Some (sigs @ [MaxValueUpdated t f []])"
    using d by (simp add: fs_update_data_signals_def)
  have w: "max_value_widget ?m'
          = update_max_value (max_value_widget (foldl fs_dispatch m sigs)) t f []"
    by simp
  have "f \<le> max_force (max_value_widget ?m')"
    unfolding w by (rule update_max_value_ge)
  with d u s w show "\<exists>m' w' sigs.
      fs_detect_mountain ?w0 t f = Some (w', sigs)
      \<and> fs_update_data_signals (fs_realtime_widget m) t f
          = Some (sigs @ [MaxValueUpdated t f []])
      \<and> fs_update_data m t f = Some m'
      \<and> max_value_widget m'
          = update_max_value (max_value_widget (foldl fs_dispatch m sigs)) t f []
      \<and> f \<le> max_force (max_value_widget m')"
    by blast
next
  show "map_option (\<lambda>m. (past_waveforms_widget m, fs_status_label (fs_realtime_widget m),
                       max_force (max_value_widget m)))
        (fs_run fs_main_init ignored_pulse_stream)
       = Some ([[(1, 10), (11/10, 0)]], Ignoring (1/2), 30)"
    unfolding ignored_pulse_stream_def by code_simp
qed

subsection \<open>C10\<close>

text \<open>
  C10. After any sequence of score insertions (\<^verbatim>\<open>update_score\<close> with the peak of each
  punch, which calls \<^verbatim>\<open>update_high_score\<close> with its integer part) the list
  \<^verbatim>\<open>high_scores\<close> is in non-increasing order and has at most five entries, and once a
  score was submitted its first entry, which is the high score displayed, is the maximum
  of all scores submitted, so that a further insertion never lowers it. Over a run of
  the application, from the initial text that shows 0 and for any stream of samples,
  the high score displayed never decreases from one sample to the next.
\<close>

theorem C10_leaderboard:
  "(\<exists>w w'. update_scores pm_score_init peaks = Some w
      \<and> update_scores pm_score_init (peaks @ [mx]) = Some w'
      \<and> sorted (rev (high_scores w)) \<and> length (high_scores w) \<le> 5
      \<and> (peaks \<noteq> [] \<longrightarrow>
           hd (high_scores w) = Max (set (map py_int peaks))
           \<and> fst (high_score_label w) = Max (set (map py_int peaks))
           \<and> fst (high_score_label w) \<le> fst (high_score_label w')))
   \<and> (\<exists>n n'. pm_run pm_main_init xs = Some n
      \<and> pm_run pm_main_init (xs @ [(t, f)]) = Some n'
      \<and> fst (high_score_label (score_widget (pm_realtime_widget n)))
          \<le> fst (high_score_label (score_widget (pm_realtime_widget n'))))"
proof (rule conjI)
  from update_scores_inv [of peaks] obtain w where
    w: "update_scores pm_score_init peaks = Some w"
      "sorted (rev (high_scores w))" "length (high_scores w) \<le> 5"
      "peaks \<noteq> [] \<longrightarrow> hd (high_scores w) = Max (set (map py_int peaks))
           \<and> fst (high_score_label w) = Max (set (map py_int peaks))"
    by blast
  from update_scores_inv [of "peaks @ [mx]"] obtain w' where
    w': "update_scores pm_score_init (peaks @ [mx]) = Some w'"
      "fst (high_score_label w') = Max (set (map py_int (peaks @ [mx])))"
    by auto
  have "peaks \<noteq> [] \<longrightarrow> Max (set (map py_int peaks)) \<le> Max (set (map py_int (peaks @ [mx])))"
    by simp
  then show "\<exists>w w'. update_scores pm_score_init peaks = Some w
      \<and> update_scores pm_score_init (peaks @ [mx]) = Some w'
      \<and> sorted (rev (high_scores w)) \<and> length (high_scores w) \<le> 5
      \<and> (peaks \<noteq> [] \<longrightarrow>
           hd (high_scores w) = Max (set (map py_int peaks))
           \<and> fst (high_score_label w) = Max (set (map py_int peaks))
           \<and> fst (high_score_label w) \<le> fst (high_score_label w'))"
    using w w' by auto
next
  from pm_run_inv [OF pm_inv_init, of xs] obtain n where
    n: "pm_run pm_main_init xs = Some n" "pm_inv (pm_realtime_widget n)"
    by blast
  from pm_update_data_inv [OF n(2), of t f] obtain n' where
    n': "pm_update_data n t f = Some n'"
      "fst (high_score_label (score_widget (pm_realtime_widget n)))
         \<le> fst (high_score_label (score_widget (pm_realtime_widget n')))"
    by blast
  have "pm_run pm_main_init (xs @ [(t, f)]) = Some n'"
    using n(1) n'(1) by (simp add: pm_run_append)
  then show "\<exists>n n'. pm_run pm_main_init xs = Some n
      \<and> pm_run pm_main_init (xs @ [(t, f)]) = Some n'
      \<and> fst (high_score_label (score_widget (pm_realtime_widget n)))
          \<le> fst (high_score_label (score_widget (pm_realtime_widget n')))"
    using n(1) n'(2) by blast
qed

theorem C10_leaderboard_witness:
  "[700, 3000.5, 120, 900, 1500, 2000 :: real] \<noteq> []
   \<and> map_option (\<lambda>w. (high_scores w, fst (high_score_label w)))
        (update_scores pm_score_init [700, 3000.5, 120, 900, 1500, 2000])
      = Some ([3000, 2000, 1500, 900, 700], 3000)
   \<and> Max (set (map py_int [700, 3000.5, 120, 900, 1500, 2000])) = 3000
   \<and> map_option (\<lambda>w. fst (high_score_label w))
        (update_scores pm_score_init ([700, 3000.5, 120, 900, 1500, 2000] @ [3100]))
      = Some 3100"
proof -
  have e1: "map_option (\<lambda>w. (high_scores w, fst (high_score_label w)))
        (update_scores pm_score_init [700, 3000.5, 120, 900, 1500, 2000])
      = Some ([3000, 2000, 1500, 900, 700], 3000)"
    by code_simp
  have e2: "map_option (\<lambda>w. fst (high_score_label w))
        (update_scores pm_score_init ([700, 3000.5, 120, 900, 1500, 2000] @ [3100]))
      = Some 3100"
    by code_simp
  from C10_leaderboard [of "[700, 3000.5, 120, 900, 1500, 2000]" 3100 "[]" 0 0] e1
  have "Max (set (map py_int [700, 3000.5, 120, 900, 1500, 2000])) = 3000"
    by auto
  then show ?thesis using e1 e2 by simp
qed

end
